theory Spec2Isabelle
  imports Main "HOL-Library.Sublist" "HOL-Library.Multiset"
begin

section \<open>JavaScript values, errors and outcomes\<close>

text \<open>
  The program is one Node.js module, \<^verbatim>\<open>index.js\<close>. Its functions are embedded as
  functions from a state to an outcome and a new state. The state holds the module's
  one mutable variable (\<^verbatim>\<open>channel\<close>) and everything the module does to the outside:
  the calls it makes on the AMQP library, the lines it writes to the console, the
  files it appends to and the HTTP responses it sends. What the outside answers
  (the broker, the database, the file system, the clock, the runtime's built-ins)
  is a parameter, the \<open>world\<close>. The awaited calls of a function are run in program
  order. The appends to the log file, which nothing awaits, are kept apart from the
  calls that ask for them and are done in any order (section Appends in flight).
\<close>

text \<open>Numbers: a finite number is modelled by its integer value; the three
  non-finite values of the Number type are kept apart.\<close>

datatype jsnum = Finite int | NaN | PosInfinity | NegInfinity

datatype jsvalue =
    JUndefined
  | JNull
  | JBoolean bool
  | JNumber jsnum
  | JString string
  | JArray "jsvalue list"
  | JObject "(string \<times> jsvalue) list"

text \<open>An error object made by a library or a built-in, with the two properties the
  module reads (\<^verbatim>\<open>err.message\<close>, \<^verbatim>\<open>err.stack\<close>).\<close>

datatype lib_error = LibError (message: string) (stack: string)

text \<open>\<open>TypeError p\<close> is what the language raises when property \<open>p\<close> is read from
  \<^verbatim>\<open>undefined\<close> or \<^verbatim>\<open>null\<close>, or when a built-in is given a wrong argument.\<close>

datatype js_error = TypeError string | Lib lib_error

datatype outcome = Normal | Threw js_error

type_synonym buffer = string

section \<open>The outside world\<close>

text \<open>Calls on the AMQP library, with their arguments as the module passes them.
  Connections and channels are handles. The arguments are: the URL; the connection;
  the channel, the exchange, its type and \<^verbatim>\<open>durable\<close>; the channel, the queue and
  \<^verbatim>\<open>exclusive\<close>; the channel, the queue, the exchange and the routing key; the channel,
  the exchange, the routing key and the content; the channel, the queue and
  \<^verbatim>\<open>noAck\<close>.\<close>

datatype amqp_call =
    Connect "string option"
  | CreateChannel nat
  | AssertExchange nat string string bool
  | AssertQueue nat string bool
  | BindQueue nat string string string
  | Publish nat string string buffer
  | Consume nat string bool

datatype console_line =
    ConsoleLog string
  | ConsoleError string
  | ConsoleErrorWith string js_error

text \<open>A moment, by its calendar fields in UTC.\<close>

record utc_time =
  year :: nat
  month :: nat
  day :: nat
  hours :: nat
  minutes :: nat
  seconds :: nat
  milliseconds :: nat

text \<open>
  What the environment answers. For a call whose promise is awaited, \<open>Inl e\<close> or
  \<open>Some e\<close> is a rejection (or a synchronous throw, which an \<^verbatim>\<open>async\<close> function
  turns into one). A call whose promise is not awaited (\<^verbatim>\<open>publish\<close>, \<^verbatim>\<open>consume\<close>, and
  \<^verbatim>\<open>assertExchange\<close> inside \<^verbatim>\<open>publishEvent\<close>) goes on unless the call itself throws:
  \<open>amqp_throws\<close> gives the exception it then raises. The built-ins of the runtime
  are parameters too; \<open>JSON_stringify\<close> answers \<open>None\<close> where the built-in returns
  \<^verbatim>\<open>undefined\<close>.
\<close>

record world =
  RABBITMQ_URL :: "string option"
  amqp_connect :: "string option \<Rightarrow> lib_error + nat"
  connection_createChannel :: "nat \<Rightarrow> lib_error + nat"
  channel_assertExchange :: "nat \<Rightarrow> string \<Rightarrow> string \<Rightarrow> bool \<Rightarrow> lib_error option"
  channel_assertQueue :: "nat \<Rightarrow> string \<Rightarrow> bool \<Rightarrow> lib_error + string"
  channel_bindQueue :: "nat \<Rightarrow> string \<Rightarrow> string \<Rightarrow> string \<Rightarrow> lib_error option"
  amqp_throws :: "amqp_call \<Rightarrow> lib_error option"
  JSON_stringify :: "jsvalue \<Rightarrow> string option"
  JSON_parse :: "string \<Rightarrow> lib_error + jsvalue"
  Buffer_from :: "string \<Rightarrow> buffer"
  Buffer_toString :: "buffer \<Rightarrow> string"
  bcrypt_hash :: "jsvalue \<Rightarrow> nat \<Rightarrow> lib_error + string"
  db_query :: "string \<Rightarrow> jsvalue list \<Rightarrow> lib_error + jsvalue"
  fs_appendFile :: "string \<Rightarrow> string \<Rightarrow> lib_error option"
  new_Date :: utc_time

record state =
  channel :: "nat option"
  calls :: "amqp_call list"
  console :: "console_line list"
  files :: "string \<Rightarrow> string option"
  responses :: "(nat \<times> jsvalue) list"

section \<open>The module\<close>

definition exchange :: string where
  "exchange = ''events''"

definition amqp :: "amqp_call \<Rightarrow> state \<Rightarrow> state" where
  "amqp c s = s\<lparr>calls := calls s @ [c]\<rparr>"

definition console_write :: "console_line \<Rightarrow> state \<Rightarrow> state" where
  "console_write l s = s\<lparr>console := console s @ [l]\<rparr>"

text \<open>\<^verbatim>\<open>createChannel\<close> (lines 28-36): both awaits are inside the \<^verbatim>\<open>try\<close>, whose
  \<^verbatim>\<open>catch\<close> logs and returns.\<close>

definition createChannel :: "world \<Rightarrow> state \<Rightarrow> outcome \<times> state" where
  "createChannel w s =
     (let s1 = amqp (Connect (RABBITMQ_URL w)) s in
      case amqp_connect w (RABBITMQ_URL w) of
        Inl error \<Rightarrow>
          (Normal, console_write (ConsoleErrorWith ''Error connecting to RabbitMQ: '' (Lib error)) s1)
      | Inr connection \<Rightarrow>
          (let s2 = amqp (CreateChannel connection) s1 in
           case connection_createChannel w connection of
             Inl error \<Rightarrow>
               (Normal, console_write (ConsoleErrorWith ''Error connecting to RabbitMQ: '' (Lib error)) s2)
           | Inr ch \<Rightarrow> (Normal, s2\<lparr>channel := Some ch\<rparr>)))"

text \<open>\<^verbatim>\<open>publishEvent\<close> (lines 39-48). Reading a method of an unset \<^verbatim>\<open>channel\<close> raises
  a TypeError. The promises of \<^verbatim>\<open>assertExchange\<close> and \<^verbatim>\<open>publish\<close> are dropped, so only an
  exception of the call itself ends the function. \<^verbatim>\<open>Buffer.from\<close> raises a TypeError on
  \<^verbatim>\<open>undefined\<close>.\<close>

definition publishEvent :: "world \<Rightarrow> jsvalue \<Rightarrow> state \<Rightarrow> outcome \<times> state" where
  "publishEvent w event s =
     (case channel s of
        None \<Rightarrow> (Threw (TypeError ''assertExchange''), s)
      | Some ch \<Rightarrow>
          (let s1 = amqp (AssertExchange ch exchange ''fanout'' False) s in
           case amqp_throws w (AssertExchange ch exchange ''fanout'' False) of
             Some e \<Rightarrow> (Threw (Lib e), s1)
           | None \<Rightarrow>
               (case JSON_stringify w event of
                  None \<Rightarrow> (Threw (TypeError ''Buffer.from''), s1)
                | Some eventString \<Rightarrow>
                    (let s2 = amqp (Publish ch exchange '''' (Buffer_from w eventString)) s1 in
                     case amqp_throws w (Publish ch exchange '''' (Buffer_from w eventString)) of
                       Some e \<Rightarrow> (Threw (Lib e), s2)
                     | None \<Rightarrow> (Normal, s2)))))"

text \<open>The request body of \<^verbatim>\<open>/register\<close>, destructured at line 60; an absent field is
  \<open>JUndefined\<close>.\<close>

record register_body =
  username :: jsvalue
  email :: jsvalue
  password :: jsvalue

definition insertQuery :: string where
  "insertQuery = ''INSERT INTO user (username, email, password) VALUES (?, ?, ?)''"

definition respond :: "nat \<Rightarrow> jsvalue \<Rightarrow> state \<Rightarrow> state" where
  "respond code body s = s\<lparr>responses := responses s @ [(code, body)]\<rparr>"

text \<open>\<^verbatim>\<open>app.post("/register")\<close> (lines 59-86). \<open>db_query\<close> answers the error or the
  \<^verbatim>\<open>insertId\<close> of the result. An exception of \<^verbatim>\<open>publishEvent\<close> leaves the query callback
  before \<^verbatim>\<open>res.json\<close> is reached; nothing in the module catches it.\<close>

definition register :: "world \<Rightarrow> register_body \<Rightarrow> state \<Rightarrow> outcome \<times> state" where
  "register w body s =
     (case bcrypt_hash w (password body) 10 of
        Inl e \<Rightarrow> (Threw (Lib e), s)
      | Inr hashedPassword \<Rightarrow>
          (case db_query w insertQuery [username body, email body, JString hashedPassword] of
             Inl err \<Rightarrow>
               (Normal,
                respond 500 (JObject [(''error'', JString ''Internal Server Error'')])
                  (console_write (ConsoleError (''Error registering user: '' @ stack err)) s))
           | Inr insertId \<Rightarrow>
               (let event = JObject [(''eventType'', JString ''userRegistered''),
                                     (''userId'', insertId),
                                     (''username'', username body),
                                     (''email'', email body)] in
                case publishEvent w event s of
                  (Threw e, s') \<Rightarrow> (Threw e, s')
                | (Normal, s') \<Rightarrow>
                    (Normal,
                     respond 200 (JObject [(''message'', JString ''User registered successfully'')]) s'))))"

text \<open>\<^verbatim>\<open>Date.prototype.toISOString\<close>: \<^verbatim>\<open>YYYY-MM-DDTHH:mm:ss.sssZ\<close>, the year with a sign
  and six digits when it has more than four.\<close>

definition digit_char :: "nat \<Rightarrow> char" where
  "digit_char n = ''0123456789'' ! n"

fun pad :: "nat \<Rightarrow> nat \<Rightarrow> string" where
  "pad 0 n = []"
| "pad (Suc k) n = pad k (n div 10) @ [digit_char (n mod 10)]"

definition toISOString :: "utc_time \<Rightarrow> string" where
  "toISOString t =
     (if year t \<le> 9999 then pad 4 (year t) else CHR ''+'' # pad 6 (year t))
     @ ''-'' @ pad 2 (month t) @ ''-'' @ pad 2 (day t)
     @ ''T'' @ pad 2 (hours t) @ '':'' @ pad 2 (minutes t) @ '':'' @ pad 2 (seconds t)
     @ ''.'' @ pad 3 (milliseconds t) @ ''Z''"

text \<open>A template literal prints \<^verbatim>\<open>undefined\<close> as the word.\<close>

definition template :: "string option \<Rightarrow> string" where
  "template x = (case x of None \<Rightarrow> ''undefined'' | Some t \<Rightarrow> t)"

definition logFilePath :: string where
  "logFilePath = ''events.log''"

definition logEntry :: "world \<Rightarrow> jsvalue \<Rightarrow> string" where
  "logEntry w event =
     toISOString (new_Date w) @ '' - Event: '' @ template (JSON_stringify w event) @ [CHR 0x0A]"

definition file_content :: "state \<Rightarrow> string \<Rightarrow> string" where
  "file_content s path = (case files s path of None \<Rightarrow> [] | Some c \<Rightarrow> c)"

text \<open>\<^verbatim>\<open>logEventToFile\<close> (lines 227-241), one call together with the end of its own
  append. \<^verbatim>\<open>fs.appendFile\<close> creates the file when it is missing; when it fails the
  callback gets the error and the file is taken to be as it was. The function itself
  returns before the callback runs, and returns nothing.\<close>

definition logEventToFile :: "world \<Rightarrow> jsvalue \<Rightarrow> state \<Rightarrow> outcome \<times> state" where
  "logEventToFile w event s =
     (case fs_appendFile w logFilePath (logEntry w event) of
        Some err \<Rightarrow>
          (Normal, console_write (ConsoleError (''Error writing to log file: '' @ message err)) s)
      | None \<Rightarrow>
          (Normal,
           console_write (ConsoleLog ''Event logged successfully'')
             (s\<lparr>files := (files s)(logFilePath \<mapsto> file_content s logFilePath @ logEntry w event)\<rparr>)))"

text \<open>A delivery as the AMQP library hands it to the consumer; the content is
  \<open>None\<close> when the property is absent or falsy. The library calls the consumer with
  \<^verbatim>\<open>null\<close> (here \<open>None\<close>) when the broker cancels it.\<close>

record amqp_message =
  content :: "buffer option"

text \<open>The consumer callback (lines 215-221), one call together with the end of the
  append it asks for.\<close>

definition onMessage :: "world \<Rightarrow> amqp_message option \<Rightarrow> state \<Rightarrow> outcome \<times> state" where
  "onMessage w msg s =
     (case msg of
        None \<Rightarrow> (Threw (TypeError ''content''), s)
      | Some m \<Rightarrow>
          (case content m of
             None \<Rightarrow> (Normal, s)
           | Some c \<Rightarrow>
               (case JSON_parse w (Buffer_toString w c) of
                  Inl e \<Rightarrow> (Threw (Lib e), s)
                | Inr event \<Rightarrow> logEventToFile w event s)))"

text \<open>\<^verbatim>\<open>subscribeToEvents\<close> (lines 199-224). Every call before \<^verbatim>\<open>consume\<close> is awaited, so
  a failure ends the function there; \<^verbatim>\<open>consume\<close> is not.\<close>

definition subscribeToEvents :: "world \<Rightarrow> state \<Rightarrow> outcome \<times> state" where
  "subscribeToEvents w s0 =
     (let s1 = snd (createChannel w s0) in
      case channel s1 of
        None \<Rightarrow> (Threw (TypeError ''assertExchange''), s1)
      | Some ch \<Rightarrow>
          (let s2 = amqp (AssertExchange ch exchange ''fanout'' False) s1 in
           case channel_assertExchange w ch exchange ''fanout'' False of
             Some e \<Rightarrow> (Threw (Lib e), s2)
           | None \<Rightarrow>
               (let s3 = amqp (AssertQueue ch '''' True) s2 in
                case channel_assertQueue w ch '''' True of
                  Inl e \<Rightarrow> (Threw (Lib e), s3)
                | Inr queue \<Rightarrow>
                    (let s4 = amqp (BindQueue ch queue exchange '''') s3 in
                     case channel_bindQueue w ch queue exchange '''' of
                       Some e \<Rightarrow> (Threw (Lib e), s4)
                     | None \<Rightarrow>
                         (let s5 = console_write
                                     (ConsoleLog ''Waiting for events. To exit, press CTRL+C'') s4;
                              s6 = amqp (Consume ch queue True) s5 in
                          case amqp_throws w (Consume ch queue True) of
                            Some e \<Rightarrow> (Threw (Lib e), s6)
                          | None \<Rightarrow> (Normal, s6))))))"

text \<open>The start of the subscriber (lines 244-246): a rejection is logged.\<close>

definition startSubscriber :: "world \<Rightarrow> state \<Rightarrow> outcome \<times> state" where
  "startSubscriber w s =
     (case subscribeToEvents w s of
        (Threw error, s') \<Rightarrow>
          (Normal, console_write (ConsoleErrorWith ''Error setting up event subscriber: '' error) s')
      | (Normal, s') \<Rightarrow> (Normal, s'))"

text \<open>The calls a step adds to the log of AMQP calls.\<close>

definition new_calls :: "state \<Rightarrow> state \<Rightarrow> amqp_call list" where
  "new_calls s s' = drop (length (calls s)) (calls s')"

text \<open>The parameters of the exchange declarations among a list of calls.\<close>

fun exchange_decls :: "amqp_call list \<Rightarrow> (string \<times> string \<times> bool) list" where
  "exchange_decls [] = []"
| "exchange_decls (AssertExchange ch name type durable # cs) = (name, type, durable) # exchange_decls cs"
| "exchange_decls (_ # cs) = exchange_decls cs"

fun call_name :: "amqp_call \<Rightarrow> string" where
  "call_name (Connect _) = ''connect''"
| "call_name (CreateChannel _) = ''createChannel''"
| "call_name (AssertExchange _ _ _ _) = ''assertExchange''"
| "call_name (AssertQueue _ _ _) = ''assertQueue''"
| "call_name (BindQueue _ _ _ _) = ''bindQueue''"
| "call_name (Publish _ _ _ _) = ''publish''"
| "call_name (Consume _ _ _) = ''consume''"

section \<open>Appends in flight\<close>

text \<open>
  \<^verbatim>\<open>fs.appendFile\<close> is asynchronous. \<^verbatim>\<open>logEventToFile\<close> returns as soon as it has asked
  for the append, and the appends asked for are done later, in an order the module
  does not fix: the append of a later delivery may be done before that of an earlier
  one. Each append writes its data in one piece. The appends that wait are kept by
  their data, in the order of the calls; all are for the log file.
\<close>

type_synonym pending = "string list"

text \<open>The end of one append (lines 234-240): what the file system reports for it, and
  the callback.\<close>

definition appendFile_done :: "lib_error option \<Rightarrow> string \<Rightarrow> state \<Rightarrow> state" where
  "appendFile_done result data s =
     (case result of
        Some err \<Rightarrow> console_write (ConsoleError (''Error writing to log file: '' @ message err)) s
      | None \<Rightarrow>
          console_write (ConsoleLog ''Event logged successfully'')
            (s\<lparr>files := (files s)(logFilePath \<mapsto> file_content s logFilePath @ data)\<rparr>))"

text \<open>\<^verbatim>\<open>logEventToFile\<close> up to its return (lines 227-234): the record is made, with the
  time of the call, and its append is asked for.\<close>

definition logEventToFile_call ::
    "world \<Rightarrow> jsvalue \<Rightarrow> state \<times> pending \<Rightarrow> outcome \<times> state \<times> pending" where
  "logEventToFile_call w event sq = (Normal, fst sq, snd sq @ [logEntry w event])"

text \<open>The consumer callback (lines 215-221) up to its return.\<close>

definition onMessage_call ::
    "world \<Rightarrow> amqp_message option \<Rightarrow> state \<times> pending \<Rightarrow> outcome \<times> state \<times> pending" where
  "onMessage_call w msg sq =
     (case msg of
        None \<Rightarrow> (Threw (TypeError ''content''), sq)
      | Some m \<Rightarrow>
          (case content m of
             None \<Rightarrow> (Normal, sq)
           | Some c \<Rightarrow>
               (case JSON_parse w (Buffer_toString w c) of
                  Inl e \<Rightarrow> (Threw (Lib e), sq)
                | Inr event \<Rightarrow> logEventToFile_call w event sq)))"

text \<open>What happens to the subscriber, one step at a time: the library calls the
  consumer with a delivery, in the world of that moment, or the append at some place
  among the waiting ones is done, with what the file system reports for it. The module
  handles no exception that leaves the callback, so a run ends there. A step that
  names an append that is not waiting changes nothing.\<close>

datatype step =
    Deliver world "amqp_message option"
  | Complete nat "lib_error option"

fun run :: "step list \<Rightarrow> state \<times> pending \<Rightarrow> outcome \<times> state \<times> pending" where
  "run [] sq = (Normal, sq)"
| "run (Deliver w msg # steps) sq =
     (case onMessage_call w msg sq of
        (Threw e, sq') \<Rightarrow> (Threw e, sq')
      | (Normal, sq') \<Rightarrow> run steps sq')"
| "run (Complete i result # steps) sq =
     (if i < length (snd sq)
      then run steps (appendFile_done result (snd sq ! i) (fst sq),
                      take i (snd sq) @ drop (Suc i) (snd sq))
      else run steps sq)"

text \<open>The event the callback decodes from a delivery, if it gets that far.\<close>

definition decoded :: "world \<Rightarrow> amqp_message option \<Rightarrow> jsvalue option" where
  "decoded w msg =
     (case msg of
        None \<Rightarrow> None
      | Some m \<Rightarrow>
          (case content m of
             None \<Rightarrow> None
           | Some c \<Rightarrow>
               (case JSON_parse w (Buffer_toString w c) of
                  Inl e \<Rightarrow> None
                | Inr event \<Rightarrow> Some event)))"

text \<open>The deliveries of a list, each with its append done before the next arrives:
  one of the runs above.\<close>

definition in_turn :: "world \<times> amqp_message option \<Rightarrow> step list" where
  "in_turn d =
     (case decoded (fst d) (snd d) of
        None \<Rightarrow> [Deliver (fst d) (snd d)]
      | Some event \<Rightarrow>
          [Deliver (fst d) (snd d),
           Complete 0 (fs_appendFile (fst d) logFilePath (logEntry (fst d) event))])"

definition deliveries :: "(world \<times> amqp_message option) list \<Rightarrow> state \<Rightarrow> outcome \<times> state" where
  "deliveries ds s =
     (case run (concat (map in_turn ds)) (s, []) of (out, s', q) \<Rightarrow> (out, s'))"

text \<open>The deliveries of a run and the reports of its appends, in order.\<close>

fun delivered :: "step list \<Rightarrow> (world \<times> amqp_message option) list" where
  "delivered [] = []"
| "delivered (Deliver w msg # steps) = (w, msg) # delivered steps"
| "delivered (Complete i result # steps) = delivered steps"

fun reports :: "step list \<Rightarrow> lib_error option list" where
  "reports [] = []"
| "reports (Deliver w msg # steps) = reports steps"
| "reports (Complete i result # steps) = result # reports steps"

text \<open>The record of a delivery, and the encoded event inside it.\<close>

definition record_of :: "world \<times> amqp_message option \<Rightarrow> string" where
  "record_of d =
     (case decoded (fst d) (snd d) of
        None \<Rightarrow> []
      | Some event \<Rightarrow> logEntry (fst d) event)"

definition encoded_of :: "world \<times> amqp_message option \<Rightarrow> string" where
  "encoded_of d =
     (case decoded (fst d) (snd d) of
        None \<Rightarrow> []
      | Some event \<Rightarrow> template (JSON_stringify (fst d) event))"

section \<open>Concrete worlds and states\<close>

definition state0 :: state where
  "state0 = \<lparr>channel = None, calls = [], console = [], files = (\<lambda>_. None), responses = []\<rparr>"

definition refused :: lib_error where
  "refused = LibError ''connect ECONNREFUSED 127.0.0.1:5672'' ''Error: connect ECONNREFUSED''"

definition no_space :: lib_error where
  "no_space = LibError ''ENOSPC: no space left on device, open events.log'' ''Error: ENOSPC''"

definition bad_json :: lib_error where
  "bad_json = LibError ''Unexpected token o in JSON at position 1'' ''SyntaxError''"

definition ana :: jsvalue where
  "ana = JObject [(''eventType'', JString ''userRegistered''), (''userId'', JNumber (Finite 7)),
                  (''username'', JString ''ana''), (''email'', JString ''a@x.io'')]"

definition ana_text :: string where
  "ana_text = ''{\"eventType\":\"userRegistered\",\"userId\":7,\"username\":\"ana\",\"email\":\"a@x.io\"}''"

text \<open>A world where the broker, the database and the disk all answer. Of the
  built-ins it has just what the examples need: the text of \<open>ana\<close> and its way back,
  and buffers of ASCII text.\<close>

definition world_up :: world where
  "world_up = \<lparr>
     RABBITMQ_URL = Some ''amqp://localhost'',
     amqp_connect = (\<lambda>_. Inr 1),
     connection_createChannel = (\<lambda>_. Inr 2),
     channel_assertExchange = (\<lambda>_ _ _ _. None),
     channel_assertQueue = (\<lambda>_ _ _. Inr ''amq.gen-1''),
     channel_bindQueue = (\<lambda>_ _ _ _. None),
     amqp_throws = (\<lambda>_. None),
     JSON_stringify = (\<lambda>v. if v = ana then Some ana_text else None),
     JSON_parse = (\<lambda>t. if t = ana_text then Inr ana else Inl bad_json),
     Buffer_from = (\<lambda>t. t),
     Buffer_toString = (\<lambda>b. b),
     bcrypt_hash = (\<lambda>_ _. Inr ''$2b$10$hash''),
     db_query = (\<lambda>_ _. Inr (JNumber (Finite 7))),
     fs_appendFile = (\<lambda>_ _. None),
     new_Date = \<lparr>year = 2024, month = 3, day = 9, hours = 14, minutes = 5, seconds = 7,
                 milliseconds = 42\<rparr>\<rparr>"

text \<open>The same world with no broker to connect to, and with a full disk.\<close>

definition world_down :: world where
  "world_down = world_up\<lparr>amqp_connect := (\<lambda>_. Inl refused)\<rparr>"

definition world_disk_full :: world where
  "world_disk_full = world_up\<lparr>fs_appendFile := (\<lambda>_ _. Some no_space)\<rparr>"

definition ana_body :: register_body where
  "ana_body = \<lparr>username = JString ''ana'', email = JString ''a@x.io'', password = JString ''pw''\<rparr>"

text \<open>The same world a second later.\<close>

definition world_later :: world where
  "world_later = world_up\<lparr>new_Date := \<lparr>year = 2024, month = 3, day = 9, hours = 14, minutes = 5,
                                          seconds = 8, milliseconds = 42\<rparr>\<rparr>"

text \<open>The same world with a runtime that also reads and writes the empty object.\<close>

definition world_empty_object :: world where
  "world_empty_object = world_up\<lparr>
     JSON_stringify := (\<lambda>v. if v = JObject [] then Some ''{}'' else JSON_stringify world_up v),
     JSON_parse := (\<lambda>t. if t = ''{}'' then Inr (JObject []) else JSON_parse world_up t)\<rparr>"

text \<open>The delivery of the registration of \<open>ana\<close>, a state whose log already has a
  line, and a run of two such deliveries in which the append of the second is done
  first.\<close>

definition message_ana :: "amqp_message option" where
  "message_ana = Some \<lparr>content = Some ana_text\<rparr>"

definition state_logged :: state where
  "state_logged = state0\<lparr>files := (\<lambda>_. None)(''events.log'' \<mapsto> ''seen before'' @ [CHR 0x0A])\<rparr>"

definition overtaking :: "step list" where
  "overtaking = [Deliver world_up message_ana, Deliver world_later message_ana,
                 Complete 1 None, Complete 0 None]"

section \<open>The broker connection\<close>

lemmas step_defs = amqp_def console_write_def respond_def new_calls_def Let_def

text \<open>
  C7. When the connection attempt fails, \<^verbatim>\<open>createChannel\<close> returns normally; all it has
  done is the one call to \<^verbatim>\<open>connect\<close> and one error line on the console. The variable
  \<^verbatim>\<open>channel\<close> is as it was, so it stays unset when it was unset; there is no second
  attempt. The start of the subscriber, which is where the module calls it, then ends
  normally too: the TypeError of the unset channel is logged, and no further call is
  made on the library.
\<close>

theorem createChannel_connect_failure:
  assumes "amqp_connect w (RABBITMQ_URL w) = Inl e"
  shows "createChannel w s =
           (Normal, s\<lparr>calls := calls s @ [Connect (RABBITMQ_URL w)],
                      console := console s @
                        [ConsoleErrorWith ''Error connecting to RabbitMQ: '' (Lib e)]\<rparr>)
       \<and> channel (snd (createChannel w s)) = channel s
       \<and> (channel s = None \<longrightarrow>
            startSubscriber w s =
              (Normal, s\<lparr>calls := calls s @ [Connect (RABBITMQ_URL w)],
                         console := console s @
                           [ConsoleErrorWith ''Error connecting to RabbitMQ: '' (Lib e),
                            ConsoleErrorWith ''Error setting up event subscriber: ''
                              (TypeError ''assertExchange'')]\<rparr>))"
proof -
  from assms have step: "createChannel w s =
           (Normal, s\<lparr>calls := calls s @ [Connect (RABBITMQ_URL w)],
                      console := console s @
                        [ConsoleErrorWith ''Error connecting to RabbitMQ: '' (Lib e)]\<rparr>)"
    by (simp add: createChannel_def step_defs)
  then have same: "channel (snd (createChannel w s)) = channel s"
    by simp
  have start: "startSubscriber w s =
              (Normal, s\<lparr>calls := calls s @ [Connect (RABBITMQ_URL w)],
                         console := console s @
                           [ConsoleErrorWith ''Error connecting to RabbitMQ: '' (Lib e),
                            ConsoleErrorWith ''Error setting up event subscriber: ''
                              (TypeError ''assertExchange'')]\<rparr>)"
    if "channel s = None"
    using that by (simp add: startSubscriber_def subscribeToEvents_def step console_write_def)
  from step same start show ?thesis
    by blast
qed

theorem createChannel_connect_failure_witness:
  "amqp_connect world_down (RABBITMQ_URL world_down) = Inl refused
   \<and> channel state0 = None
   \<and> createChannel world_down state0 =
       (Normal, state0\<lparr>calls := [Connect (Some ''amqp://localhost'')],
                  console := [ConsoleErrorWith ''Error connecting to RabbitMQ: '' (Lib refused)]\<rparr>)
   \<and> channel (snd (createChannel world_down state0)) = None
   \<and> startSubscriber world_down state0 =
       (Normal, state0\<lparr>calls := [Connect (Some ''amqp://localhost'')],
                  console := [ConsoleErrorWith ''Error connecting to RabbitMQ: '' (Lib refused),
                              ConsoleErrorWith ''Error setting up event subscriber: ''
                                (TypeError ''assertExchange'')]\<rparr>)"
proof -
  have down: "amqp_connect world_down (RABBITMQ_URL world_down) = Inl refused"
    by (simp add: world_down_def)
  have unset: "channel state0 = None"
    by (simp add: state0_def)
  from createChannel_connect_failure [OF down, of state0] down unset show ?thesis
    by (simp add: world_down_def world_up_def state0_def)
qed




section \<open>The subscriber's start\<close>

lemma subscribeToEvents_all_succeed:
  assumes "amqp_connect w (RABBITMQ_URL w) = Inr c"
    and "connection_createChannel w c = Inr ch"
    and "channel_assertExchange w ch ''events'' ''fanout'' False = None"
    and "channel_assertQueue w ch [] True = Inr q"
    and "channel_bindQueue w ch q ''events'' [] = None"
    and "amqp_throws w (Consume ch q True) = None"
  shows "subscribeToEvents w s =
           (Normal, s\<lparr>channel := Some ch,
                      calls := calls s @
                        [Connect (RABBITMQ_URL w), CreateChannel c,
                         AssertExchange ch ''events'' ''fanout'' False,
                         AssertQueue ch [] True,
                         BindQueue ch q ''events'' [],
                         Consume ch q True],
                      console := console s @
                        [ConsoleLog ''Waiting for events. To exit, press CTRL+C'']\<rparr>)"
  using assms
  by (simp add: subscribeToEvents_def createChannel_def exchange_def step_defs)

lemma subscribeToEvents_prefix:
  assumes "channel s = None"
  shows "prefix (map call_name (new_calls s (snd (subscribeToEvents w s))))
           [''connect'', ''createChannel'', ''assertExchange'', ''assertQueue'',
            ''bindQueue'', ''consume'']"
  using assms
  by (simp add: subscribeToEvents_def createChannel_def step_defs
           split: sum.splits option.splits)

text \<open>
  C3. Started with no channel, \<^verbatim>\<open>subscribeToEvents\<close> makes its calls in the order
  connect, createChannel, assertExchange, assertQueue, bindQueue, consume, and stops at
  the first that fails. When all succeed the calls are exactly: the connection and its
  channel, the exchange \<^verbatim>\<open>events\<close> declared as a non-durable fanout, a queue declared
  with the empty name and \<^verbatim>\<open>exclusive\<close>, that queue (under the name the broker gave it)
  bound to the exchange with the empty routing key, and \<^verbatim>\<open>consume\<close> on it with
  \<^verbatim>\<open>noAck\<close>.
\<close>

theorem subscribeToEvents_order:
  "(channel s = None \<longrightarrow>
      prefix (map call_name (new_calls s (snd (subscribeToEvents w s))))
        [''connect'', ''createChannel'', ''assertExchange'', ''assertQueue'',
         ''bindQueue'', ''consume''])
   \<and> (amqp_connect w (RABBITMQ_URL w) = Inr c \<longrightarrow>
       connection_createChannel w c = Inr ch \<longrightarrow>
       channel_assertExchange w ch ''events'' ''fanout'' False = None \<longrightarrow>
       channel_assertQueue w ch [] True = Inr q \<longrightarrow>
       channel_bindQueue w ch q ''events'' [] = None \<longrightarrow>
       amqp_throws w (Consume ch q True) = None \<longrightarrow>
       subscribeToEvents w s =
         (Normal, s\<lparr>channel := Some ch,
                    calls := calls s @
                      [Connect (RABBITMQ_URL w), CreateChannel c,
                       AssertExchange ch ''events'' ''fanout'' False,
                       AssertQueue ch [] True,
                       BindQueue ch q ''events'' [],
                       Consume ch q True],
                    console := console s @
                      [ConsoleLog ''Waiting for events. To exit, press CTRL+C'']\<rparr>))"
  using subscribeToEvents_prefix [of s w] subscribeToEvents_all_succeed [of w c ch q s]
  by blast

theorem subscribeToEvents_order_witness:
  "channel state0 = None
   \<and> prefix (map call_name (new_calls state0 (snd (subscribeToEvents world_down state0))))
        [''connect'', ''createChannel'', ''assertExchange'', ''assertQueue'',
         ''bindQueue'', ''consume'']
   \<and> amqp_connect world_up (RABBITMQ_URL world_up) = Inr 1
   \<and> connection_createChannel world_up 1 = Inr 2
   \<and> channel_assertExchange world_up 2 ''events'' ''fanout'' False = None
   \<and> channel_assertQueue world_up 2 [] True = Inr ''amq.gen-1''
   \<and> channel_bindQueue world_up 2 ''amq.gen-1'' ''events'' [] = None
   \<and> amqp_throws world_up (Consume 2 ''amq.gen-1'' True) = None
   \<and> subscribeToEvents world_up state0 =
         (Normal, state0\<lparr>channel := Some 2,
                    calls := [Connect (Some ''amqp://localhost''), CreateChannel 1,
                              AssertExchange 2 ''events'' ''fanout'' False,
                              AssertQueue 2 [] True,
                              BindQueue 2 ''amq.gen-1'' ''events'' [],
                              Consume 2 ''amq.gen-1'' True],
                    console := [ConsoleLog ''Waiting for events. To exit, press CTRL+C'']\<rparr>)"
proof -
  have none: "channel state0 = None"
    by (simp add: state0_def)
  have up: "amqp_connect world_up (RABBITMQ_URL world_up) = Inr 1"
    "connection_createChannel world_up 1 = Inr 2"
    "channel_assertExchange world_up 2 ''events'' ''fanout'' False = None"
    "channel_assertQueue world_up 2 [] True = Inr ''amq.gen-1''"
    "channel_bindQueue world_up 2 ''amq.gen-1'' ''events'' [] = None"
    "amqp_throws world_up (Consume 2 ''amq.gen-1'' True) = None"
    by (simp_all add: world_up_def)
  from none subscribeToEvents_order [of state0 world_down]
  have first: "prefix (map call_name (new_calls state0 (snd (subscribeToEvents world_down state0))))
        [''connect'', ''createChannel'', ''assertExchange'', ''assertQueue'',
         ''bindQueue'', ''consume'']"
    by simp
  from up subscribeToEvents_order [of state0 world_up 1 2 "''amq.gen-1''"]
  have second: "subscribeToEvents world_up state0 =
         (Normal, state0\<lparr>channel := Some 2,
                    calls := calls state0 @ [Connect (RABBITMQ_URL world_up), CreateChannel 1,
                              AssertExchange 2 ''events'' ''fanout'' False,
                              AssertQueue 2 [] True,
                              BindQueue 2 ''amq.gen-1'' ''events'' [],
                              Consume 2 ''amq.gen-1'' True],
                    console := console state0 @
                      [ConsoleLog ''Waiting for events. To exit, press CTRL+C'']\<rparr>)"
    by simp
  from none up first second show ?thesis
    by (simp add: state0_def world_up_def)
qed

section \<open>The exchange declarations\<close>

text \<open>
  C8. Every exchange declaration the publisher or the subscriber makes has the
  parameters \<^verbatim>\<open>events\<close>, \<^verbatim>\<open>fanout\<close>, \<^verbatim>\<open>durable: false\<close>, in every world, for every
  event and from every state: nothing the environment supplies enters them. The
  publisher makes exactly one such declaration when it has a channel, and so does the
  subscriber once it has acquired one.
\<close>

theorem exchange_declarations_agree:
  "set (exchange_decls (new_calls s (snd (publishEvent w ev s)))) \<subseteq> {(''events'', ''fanout'', False)}
   \<and> set (exchange_decls (new_calls s' (snd (subscribeToEvents w' s')))) \<subseteq> {(''events'', ''fanout'', False)}
   \<and> (channel s = Some ch \<longrightarrow>
         exchange_decls (new_calls s (snd (publishEvent w ev s))) = [(''events'', ''fanout'', False)])
   \<and> (channel (snd (createChannel w' s')) = Some ch' \<longrightarrow>
         exchange_decls (new_calls s' (snd (subscribeToEvents w' s'))) = [(''events'', ''fanout'', False)])"
proof -
  have pub: "set (exchange_decls (new_calls s (snd (publishEvent w ev s)))) \<subseteq> {(''events'', ''fanout'', False)}"
    by (simp add: publishEvent_def exchange_def step_defs split: option.splits)
  have sub: "set (exchange_decls (new_calls s' (snd (subscribeToEvents w' s')))) \<subseteq> {(''events'', ''fanout'', False)}"
    by (simp add: subscribeToEvents_def createChannel_def exchange_def step_defs
             split: option.splits sum.splits)
  have pub1: "exchange_decls (new_calls s (snd (publishEvent w ev s))) = [(''events'', ''fanout'', False)]"
    if "channel s = Some ch"
    using that
    by (simp add: publishEvent_def exchange_def step_defs split: option.splits)
  have sub1: "exchange_decls (new_calls s' (snd (subscribeToEvents w' s'))) = [(''events'', ''fanout'', False)]"
    if "channel (snd (createChannel w' s')) = Some ch'"
    using that
    by (simp add: subscribeToEvents_def createChannel_def exchange_def step_defs
             split: option.splits sum.splits)
  from pub sub pub1 sub1 show ?thesis by blast
qed

theorem exchange_declarations_agree_witness:
  "channel (state0\<lparr>channel := Some 2\<rparr>) = Some 2
   \<and> exchange_decls (new_calls (state0\<lparr>channel := Some 2\<rparr>)
         (snd (publishEvent world_up ana (state0\<lparr>channel := Some 2\<rparr>)))) = [(''events'', ''fanout'', False)]
   \<and> channel (snd (createChannel world_up state0)) = Some 2
   \<and> exchange_decls (new_calls state0 (snd (subscribeToEvents world_up state0)))
       = [(''events'', ''fanout'', False)]"
proof -
  have a: "channel (state0\<lparr>channel := Some 2\<rparr>) = Some 2"
    by simp
  have b: "channel (snd (createChannel world_up state0)) = Some 2"
    by (simp add: createChannel_def step_defs world_up_def)
  from a b exchange_declarations_agree
         [of "state0\<lparr>channel := Some 2\<rparr>" world_up ana state0 world_up 2 2]
  show ?thesis by simp
qed

section \<open>Registration without a channel\<close>

lemma register_channel_absent:
  assumes "channel s = None"
    and "bcrypt_hash w (password body) 10 = Inr h"
    and "db_query w insertQuery [username body, email body, JString h] = Inr insertId"
  shows "register w body s = (Threw (TypeError ''assertExchange''), s)"
  using assms by (simp add: register_def publishEvent_def)

lemma startSubscriber_world_down:
  "startSubscriber world_down state0 =
     (Normal, state0\<lparr>calls := [Connect (Some ''amqp://localhost'')],
        console := [ConsoleErrorWith ''Error connecting to RabbitMQ: '' (Lib refused),
                    ConsoleErrorWith ''Error setting up event subscriber: '' (TypeError ''assertExchange'')]\<rparr>)"
  by (simp add: startSubscriber_def subscribeToEvents_def createChannel_def step_defs
        world_down_def world_up_def state0_def)

text \<open>
  C1. The module is started with no broker to connect to, so \<^verbatim>\<open>channel\<close> stays unset.
  A \<^verbatim>\<open>/register\<close> request follows whose insert succeeds. \<^verbatim>\<open>publishEvent\<close> reads
  \<^verbatim>\<open>assertExchange\<close> from the unset channel, the TypeError leaves the query callback, and
  \<^verbatim>\<open>res.json\<close> is never reached: no response is sent and nothing is logged for it.
\<close>

theorem register_without_channel_throws:
  "channel (snd (startSubscriber world_down state0)) = None
   \<and> db_query world_down insertQuery [JString ''ana'', JString ''a@x.io'', JString ''$2b$10$hash'']
       = Inr (JNumber (Finite 7))
   \<and> register world_down ana_body (snd (startSubscriber world_down state0))
       = (Threw (TypeError ''assertExchange''), snd (startSubscriber world_down state0))
   \<and> responses (snd (startSubscriber world_down state0)) = []"
proof -
  have c: "channel (snd (startSubscriber world_down state0)) = None"
    unfolding startSubscriber_world_down by (simp add: state0_def)
  have h: "bcrypt_hash world_down (password ana_body) 10 = Inr ''$2b$10$hash''"
    by (simp add: world_down_def world_up_def)
  have q: "db_query world_down insertQuery
             [username ana_body, email ana_body, JString ''$2b$10$hash''] = Inr (JNumber (Finite 7))"
    by (simp add: world_down_def world_up_def)
  have r: "responses (snd (startSubscriber world_down state0)) = []"
    unfolding startSubscriber_world_down by (simp add: state0_def)
  from register_channel_absent [OF c h q] c q r show ?thesis
    by (simp add: ana_body_def)
qed

section \<open>The consumer callback\<close>

text \<open>A call of \<^verbatim>\<open>logEventToFile\<close> with the end of its append is the call followed at once
  by that end, and the deliveries of a list in turn go through the callback one after
  the other.\<close>

lemma logEventToFile_done:
  "logEventToFile w event s =
     (Normal, appendFile_done (fs_appendFile w logFilePath (logEntry w event)) (logEntry w event) s)"
  by (simp add: logEventToFile_def appendFile_done_def split: option.splits)

lemma onMessage_in_turn:
  "(case run (in_turn (w, msg) @ steps) (s, []) of (out, s', q) \<Rightarrow> (out, s')) =
     (case onMessage w msg s of
        (Threw e, s') \<Rightarrow> (Threw e, s')
      | (Normal, s') \<Rightarrow> (case run steps (s', []) of (out, s'', q) \<Rightarrow> (out, s'')))"
  by (simp add: in_turn_def decoded_def onMessage_def onMessage_call_def logEventToFile_call_def
        logEventToFile_done split: option.splits sum.splits)

lemma deliveries_Nil [simp]: "deliveries [] s = (Normal, s)"
  by (simp add: deliveries_def)

lemma deliveries_Cons [simp]:
  "deliveries ((w, msg) # ds) s =
     (case onMessage w msg s of
        (Threw e, s') \<Rightarrow> (Threw e, s')
      | (Normal, s') \<Rightarrow> deliveries ds s')"
  by (simp add: deliveries_def onMessage_in_turn split: prod.splits outcome.splits)

lemma toISOString_world_up: "toISOString (new_Date world_up) = ''2024-03-09T14:05:07.042Z''"
  by code_simp

lemma toISOString_world_later: "toISOString (new_Date world_later) = ''2024-03-09T14:05:08.042Z''"
  by code_simp

text \<open>
  C9. The callback checks no shape of what it decodes. The body \<^verbatim>\<open>{}\<close> is JSON but no
  encoded event (it has no \<^verbatim>\<open>eventType\<close>): the decode step raises nothing, and the empty
  object is logged like any event.
\<close>

theorem onMessage_non_event_logged_counterexample:
  "JSON_parse world_empty_object (Buffer_toString world_empty_object ''{}'') = Inr (JObject [])
   \<and> onMessage world_empty_object (Some \<lparr>content = Some ''{}''\<rparr>) state0 =
       (Normal, state0\<lparr>files := (\<lambda>_. None)(''events.log'' \<mapsto>
                           ''2024-03-09T14:05:07.042Z - Event: {}'' @ [CHR 0x0A]),
                  console := [ConsoleLog ''Event logged successfully'']\<rparr>)"
proof -
  have parse: "JSON_parse world_empty_object (Buffer_toString world_empty_object ''{}'') = Inr (JObject [])"
    by (simp add: world_empty_object_def world_up_def)
  have entry: "logEntry world_empty_object (JObject [])
                 = ''2024-03-09T14:05:07.042Z - Event: {}'' @ [CHR 0x0A]"
  proof -
    have "new_Date world_empty_object = new_Date world_up"
      by (simp add: world_empty_object_def)
    moreover have "JSON_stringify world_empty_object (JObject []) = Some ''{}''"
      by (simp add: world_empty_object_def)
    ultimately show ?thesis
      by (simp add: logEntry_def toISOString_world_up template_def)
  qed
  have disk: "fs_appendFile world_empty_object logFilePath
                (''2024-03-09T14:05:07.042Z - Event: {}'' @ [CHR 0x0A]) = None"
    by (simp add: world_empty_object_def world_up_def)
  have "onMessage world_empty_object (Some \<lparr>content = Some ''{}''\<rparr>) state0 =
       (Normal, state0\<lparr>files := (\<lambda>_. None)(''events.log'' \<mapsto>
                           ''2024-03-09T14:05:07.042Z - Event: {}'' @ [CHR 0x0A]),
                  console := [ConsoleLog ''Event logged successfully'']\<rparr>)"
    using disk
    by (simp add: onMessage_def parse logEventToFile_def entry file_content_def logFilePath_def
          console_write_def state0_def)
  with parse show ?thesis
    by simp
qed

text \<open>
  C9, as the code has it. The callback raises exactly when \<^verbatim>\<open>JSON.parse\<close> raises on the
  text of the content. That error leaves the callback as it is: the callback has no
  handler, nothing is appended and nothing is logged, and the run ends with that error,
  the deliveries after it unprocessed. Whatever \<^verbatim>\<open>JSON.parse\<close> returns, an event or not,
  is handed to \<^verbatim>\<open>logEventToFile\<close>, and the callback returns normally.
\<close>

theorem onMessage_raises_when_parse_raises:
  assumes "content m = Some c"
  shows "(case JSON_parse w (Buffer_toString w c) of
            Inl e \<Rightarrow>
              onMessage w (Some m) s = (Threw (Lib e), s)
              \<and> deliveries ((w, Some m) # ds) s = (Threw (Lib e), s)
              \<and> run (Deliver w (Some m) # steps) (s, q) = (Threw (Lib e), s, q)
          | Inr event \<Rightarrow>
              onMessage w (Some m) s = logEventToFile w event s
              \<and> fst (onMessage w (Some m) s) = Normal
              \<and> run (Deliver w (Some m) # steps) (s, q) = run steps (s, q @ [logEntry w event]))"
  using assms
  by (simp add: onMessage_def onMessage_call_def logEventToFile_call_def logEventToFile_done
        split: sum.splits)

theorem onMessage_raises_when_parse_raises_witness:
  "content \<lparr>content = Some ''{oops''\<rparr> = Some ''{oops''
   \<and> JSON_parse world_up (Buffer_toString world_up ''{oops'') = Inl bad_json
   \<and> onMessage world_up (Some \<lparr>content = Some ''{oops''\<rparr>) state0 = (Threw (Lib bad_json), state0)
   \<and> deliveries [(world_up, Some \<lparr>content = Some ''{oops''\<rparr>), (world_up, message_ana)] state0
       = (Threw (Lib bad_json), state0)
   \<and> run [Deliver world_up (Some \<lparr>content = Some ''{oops''\<rparr>), Deliver world_up message_ana]
         (state0, []) = (Threw (Lib bad_json), state0, [])
   \<and> content \<lparr>content = Some ''{}''\<rparr> = Some ''{}''
   \<and> JSON_parse world_empty_object (Buffer_toString world_empty_object ''{}'') = Inr (JObject [])
   \<and> fst (onMessage world_empty_object (Some \<lparr>content = Some ''{}''\<rparr>) state0) = Normal
   \<and> onMessage world_empty_object (Some \<lparr>content = Some ''{}''\<rparr>) state0
       = logEventToFile world_empty_object (JObject []) state0"
proof -
  have a: "content \<lparr>content = Some ''{oops''\<rparr> = Some ''{oops''"
    by simp
  have b: "JSON_parse world_up (Buffer_toString world_up ''{oops'') = Inl bad_json"
    by (simp add: world_up_def ana_text_def)
  have c: "content \<lparr>content = Some ''{}''\<rparr> = Some ''{}''"
    by simp
  have d: "JSON_parse world_empty_object (Buffer_toString world_empty_object ''{}'') = Inr (JObject [])"
    by (simp add: world_empty_object_def world_up_def)
  from onMessage_raises_when_parse_raises
         [OF a, of world_up state0 "[(world_up, message_ana)]" "[Deliver world_up message_ana]" "[]"] b
  have raised: "onMessage world_up (Some \<lparr>content = Some ''{oops''\<rparr>) state0 = (Threw (Lib bad_json), state0)"
    "deliveries [(world_up, Some \<lparr>content = Some ''{oops''\<rparr>), (world_up, message_ana)] state0
       = (Threw (Lib bad_json), state0)"
    "run [Deliver world_up (Some \<lparr>content = Some ''{oops''\<rparr>), Deliver world_up message_ana]
         (state0, []) = (Threw (Lib bad_json), state0, [])"
    by simp_all
  from onMessage_raises_when_parse_raises [OF c, of world_empty_object state0 "[]" "[]" "[]"] d
  have logged: "fst (onMessage world_empty_object (Some \<lparr>content = Some ''{}''\<rparr>) state0) = Normal"
    "onMessage world_empty_object (Some \<lparr>content = Some ''{}''\<rparr>) state0
       = logEventToFile world_empty_object (JObject []) state0"
    by (simp_all add: logEventToFile_done)
  from a b c d raised logged show ?thesis
    by simp
qed


text \<open>
  C10. A delivery whose content is absent or falsy is skipped: the callback returns
  normally with the state as it was (no decode, no append, no console line), and the
  run goes on with the next delivery.
\<close>

theorem onMessage_no_content_skips:
  assumes "content m = None"
  shows "onMessage w (Some m) s = (Normal, s)
       \<and> deliveries ((w, Some m) # ds) s = deliveries ds s"
  using assms by (simp add: onMessage_def)

theorem onMessage_no_content_skips_witness:
  "content \<lparr>content = None\<rparr> = None
   \<and> onMessage world_up (Some \<lparr>content = None\<rparr>) state0 = (Normal, state0)
   \<and> deliveries [(world_up, Some \<lparr>content = None\<rparr>)] state0 = (Normal, state0)"
proof -
  have a: "content \<lparr>content = None\<rparr> = None"
    by simp
  from onMessage_no_content_skips [OF a, of world_up state0 "[]"] a show ?thesis
    by simp
qed

section \<open>The event log\<close>

text \<open>
  C6. On a full disk the append fails, and \<^verbatim>\<open>logEventToFile\<close> still returns normally
  to its caller; the file has not been written.
\<close>

theorem logEventToFile_failure_counterexample:
  "fs_appendFile world_disk_full logFilePath (logEntry world_disk_full ana) = Some no_space
   \<and> fst (logEventToFile world_disk_full ana state0) = Normal
   \<and> files (snd (logEventToFile world_disk_full ana state0)) logFilePath = None"
  by (simp add: logEventToFile_def world_disk_full_def step_defs state0_def)

text \<open>
  C6, as the code has it. \<^verbatim>\<open>logEventToFile\<close> always returns normally. When the append
  fails, all that happens is one error line on the console, with the error's message;
  when it succeeds, the file holds its former content followed by the record.
\<close>

theorem logEventToFile_failure_only_logged:
  "fst (logEventToFile w ev s) = Normal
   \<and> (fs_appendFile w logFilePath (logEntry w ev) = Some err \<longrightarrow>
        snd (logEventToFile w ev s) =
          s\<lparr>console := console s @ [ConsoleError (''Error writing to log file: '' @ message err)]\<rparr>)
   \<and> (fs_appendFile w logFilePath (logEntry w ev) = None \<longrightarrow>
        files (snd (logEventToFile w ev s)) logFilePath
          = Some (file_content s logFilePath @ logEntry w ev))"
  by (simp add: logEventToFile_def step_defs split: option.splits)

theorem logEventToFile_failure_only_logged_witness:
  "fs_appendFile world_disk_full logFilePath (logEntry world_disk_full ana) = Some no_space
   \<and> logEventToFile world_disk_full ana state0 =
        (Normal, state0\<lparr>console := [ConsoleError
           ''Error writing to log file: ENOSPC: no space left on device, open events.log'']\<rparr>)
   \<and> fs_appendFile world_up logFilePath (logEntry world_up ana) = None
   \<and> files (snd (logEventToFile world_up ana state0)) logFilePath = Some (logEntry world_up ana)"
proof -
  have a: "fs_appendFile world_disk_full logFilePath (logEntry world_disk_full ana) = Some no_space"
    by (simp add: world_disk_full_def)
  have b: "fs_appendFile world_up logFilePath (logEntry world_up ana) = None"
    by (simp add: world_up_def)
  from a logEventToFile_failure_only_logged [of world_disk_full ana state0 no_space]
  have 1: "logEventToFile world_disk_full ana state0 =
        (Normal, state0\<lparr>console := [ConsoleError
           ''Error writing to log file: ENOSPC: no space left on device, open events.log'']\<rparr>)"
    by (simp add: prod_eq_iff state0_def no_space_def)
  from b logEventToFile_failure_only_logged [of world_up ana state0]
  have 2: "files (snd (logEventToFile world_up ana state0)) logFilePath = Some (logEntry world_up ana)"
    by (simp add: file_content_def state0_def)
  from a b 1 2 show ?thesis by simp
qed

text \<open>The timestamp has no newline, so a record has exactly one where the encoded
  event has none.\<close>

lemma digit_char_no_newline: "digit_char (n mod 10) \<noteq> CHR 0x0A"
proof -
  have "n mod 10 < length ''0123456789''"
    by simp
  then have "digit_char (n mod 10) \<in> set ''0123456789''"
    unfolding digit_char_def by (rule nth_mem)
  then show ?thesis
    by auto
qed

lemma pad_no_newline: "CHR 0x0A \<notin> set (pad k n)"
  by (induction k arbitrary: n) (simp_all add: digit_char_no_newline [symmetric])

lemma toISOString_no_newline: "CHR 0x0A \<notin> set (toISOString t)"
  by (simp add: toISOString_def pad_no_newline)

lemma record_of_decoded:
  assumes "decoded (fst d) (snd d) \<noteq> None"
  shows "record_of d = toISOString (new_Date (fst d)) @ '' - Event: '' @ encoded_of d @ [CHR 0x0A]"
  using assms by (auto simp add: record_of_def encoded_of_def logEntry_def)

lemma onMessage_call_decoded:
  assumes "decoded w msg \<noteq> None"
  shows "onMessage_call w msg (s, q) = (Normal, s, q @ [record_of (w, msg)])"
  using assms
  by (auto simp add: decoded_def record_of_def onMessage_call_def logEventToFile_call_def
        split: option.splits sum.splits)

lemma mset_without_nth:
  assumes "i < length q"
  shows "mset q = add_mset (q ! i) (mset (take i q @ drop (Suc i) q))"
proof -
  from assms have "q = take i q @ q ! i # drop (Suc i) q"
    by (rule id_take_nth_drop)
  then have "mset q = mset (take i q @ q ! i # drop (Suc i) q)"
    by simp
  then show ?thesis
    by simp
qed

lemma appendFile_done_file:
  "file_content (appendFile_done None data s) ''events.log'' = file_content s ''events.log'' @ data"
  "p \<noteq> ''events.log'' \<Longrightarrow> files (appendFile_done None data s) p = files s p"
  by (simp_all add: appendFile_done_def file_content_def logFilePath_def console_write_def)

lemma run_all_succeed:
  assumes "\<forall>d \<in> set (delivered steps). decoded (fst d) (snd d) \<noteq> None"
    and "\<forall>r \<in> set (reports steps). r = None"
  shows "\<exists>s' q' C. run steps (s, q) = (Normal, s', q')
           \<and> file_content s' ''events.log'' = file_content s ''events.log'' @ concat C
           \<and> mset C + mset q' = mset q + mset (map record_of (delivered steps))
           \<and> (\<forall>p. p \<noteq> ''events.log'' \<longrightarrow> files s' p = files s p)"
  using assms
proof (induction steps arbitrary: s q)
  case Nil
  have "run [] (s, q) = (Normal, s, q)
      \<and> file_content s ''events.log'' = file_content s ''events.log'' @ concat []
      \<and> mset [] + mset q = mset q + mset (map record_of (delivered []))
      \<and> (\<forall>p. p \<noteq> ''events.log'' \<longrightarrow> files s p = files s p)"
    by simp
  then show ?case
    by blast
next
  case (Cons st steps)
  show ?case
  proof (cases st)
    case (Deliver w msg)
    with Cons.prems have dec: "decoded w msg \<noteq> None"
      and rest: "\<forall>d \<in> set (delivered steps). decoded (fst d) (snd d) \<noteq> None"
        "\<forall>r \<in> set (reports steps). r = None"
      by simp_all
    from Cons.IH [OF rest, of s "q @ [record_of (w, msg)]"] obtain s' q' C
      where "run steps (s, q @ [record_of (w, msg)]) = (Normal, s', q')"
        and "file_content s' ''events.log'' = file_content s ''events.log'' @ concat C"
        and "mset C + mset q' = mset (q @ [record_of (w, msg)]) + mset (map record_of (delivered steps))"
        and "\<forall>p. p \<noteq> ''events.log'' \<longrightarrow> files s' p = files s p"
      by blast
    with Deliver onMessage_call_decoded [OF dec, of s q]
    have "run (st # steps) (s, q) = (Normal, s', q')
        \<and> file_content s' ''events.log'' = file_content s ''events.log'' @ concat C
        \<and> mset C + mset q' = mset q + mset (map record_of (delivered (st # steps)))
        \<and> (\<forall>p. p \<noteq> ''events.log'' \<longrightarrow> files s' p = files s p)"
      by simp
    then show ?thesis
      by blast
  next
    case (Complete i result)
    with Cons.prems have none: "result = None"
      and rest: "\<forall>d \<in> set (delivered steps). decoded (fst d) (snd d) \<noteq> None"
        "\<forall>r \<in> set (reports steps). r = None"
      by simp_all
    show ?thesis
    proof (cases "i < length q")
      case True
      define s1 where "s1 = appendFile_done None (q ! i) s"
      define q1 where "q1 = take i q @ drop (Suc i) q"
      from Cons.IH [OF rest, of s1 q1] obtain s' q' C
        where run: "run steps (s1, q1) = (Normal, s', q')"
          and content: "file_content s' ''events.log'' = file_content s1 ''events.log'' @ concat C"
          and bag: "mset C + mset q' = mset q1 + mset (map record_of (delivered steps))"
          and others: "\<forall>p. p \<noteq> ''events.log'' \<longrightarrow> files s' p = files s1 p"
        by blast
      from True Complete none run have 1: "run (st # steps) (s, q) = (Normal, s', q')"
        by (simp add: s1_def q1_def)
      from content have 2: "file_content s' ''events.log''
                           = file_content s ''events.log'' @ concat ((q ! i) # C)"
        by (simp add: s1_def appendFile_done_file)
      from bag mset_without_nth [OF True] Complete
      have 3: "mset ((q ! i) # C) + mset q' = mset q + mset (map record_of (delivered (st # steps)))"
        by (simp add: q1_def)
      from others have 4: "\<forall>p. p \<noteq> ''events.log'' \<longrightarrow> files s' p = files s p"
        by (simp add: s1_def appendFile_done_file)
      from 1 2 3 4 show ?thesis
        by blast
    next
      case False
      from Cons.IH [OF rest, of s q] obtain s' q' C
        where "run steps (s, q) = (Normal, s', q')"
          and "file_content s' ''events.log'' = file_content s ''events.log'' @ concat C"
          and "mset C + mset q' = mset q + mset (map record_of (delivered steps))"
          and "\<forall>p. p \<noteq> ''events.log'' \<longrightarrow> files s' p = files s p"
        by blast
      with False Complete
      have "run (st # steps) (s, q) = (Normal, s', q')
          \<and> file_content s' ''events.log'' = file_content s ''events.log'' @ concat C
          \<and> mset C + mset q' = mset q + mset (map record_of (delivered (st # steps)))
          \<and> (\<forall>p. p \<noteq> ''events.log'' \<longrightarrow> files s' p = files s p)"
        by simp
      then show ?thesis
        by blast
    qed
  qed
qed

lemma count_list_concat: "count_list (concat xs) x = sum_list (map (\<lambda>r. count_list r x) xs)"
  by (induction xs) simp_all

lemma count_list_concat_mset:
  assumes "mset C = mset R"
  shows "count_list (concat C) x = count_list (concat R) x"
proof -
  have "sum_list (map (\<lambda>r. count_list r x) C) = sum_mset (image_mset (\<lambda>r. count_list r x) (mset C))"
    by (simp add: sum_mset_sum_list [symmetric])
  also have "\<dots> = sum_mset (image_mset (\<lambda>r. count_list r x) (mset R))"
    by (simp add: assms)
  also have "\<dots> = sum_list (map (\<lambda>r. count_list r x) R)"
    by (simp add: sum_mset_sum_list [symmetric])
  finally show ?thesis
    by (simp add: count_list_concat)
qed

lemma count_newline_records:
  assumes "\<forall>d \<in> set ds. decoded (fst d) (snd d) \<noteq> None"
    and "\<forall>d \<in> set ds. CHR 0x0A \<notin> set (encoded_of d)"
  shows "count_list (concat (map record_of ds)) (CHR 0x0A) = length ds"
  using assms
proof (induction ds)
  case Nil
  then show ?case by simp
next
  case (Cons d ds)
  from Cons.prems have "decoded (fst d) (snd d) \<noteq> None" and "CHR 0x0A \<notin> set (encoded_of d)"
    by simp_all
  then have "count_list (record_of d) (CHR 0x0A) = 1"
    using toISOString_no_newline [of "new_Date (fst d)"]
    by (simp add: record_of_decoded)
  with Cons show ?case
    by simp
qed

text \<open>
  C4. Take any run of deliveries and ends of appends, in any order, in which every
  delivery has a content that decodes, every append that is done succeeds, and no
  append is left waiting at the end. Then the run ends normally, and the file
  \<^verbatim>\<open>events.log\<close> holds its former content, unchanged, followed by exactly one record for
  each delivery (and for each append that was waiting at the start), in the order in
  which the appends were done; no other file is touched. Each record is the ISO
  timestamp of the moment of its delivery, the separator \<^verbatim>\<open> - Event: \<close>, the encoded event
  and a newline; where the encoder puts no newline inside its text, the file has
  gained exactly one line for each delivery.
\<close>

theorem appends_in_any_order:
  assumes "\<forall>d \<in> set (delivered steps). decoded (fst d) (snd d) \<noteq> None"
    and "\<forall>r \<in> set (reports steps). r = None"
    and "snd (snd (run steps (s, q))) = []"
  shows "fst (run steps (s, q)) = Normal
       \<and> (\<exists>C. mset C = mset (q @ map record_of (delivered steps))
              \<and> file_content (fst (snd (run steps (s, q)))) ''events.log''
                  = file_content s ''events.log'' @ concat C)
       \<and> (\<forall>p. p \<noteq> ''events.log'' \<longrightarrow> files (fst (snd (run steps (s, q)))) p = files s p)
       \<and> (\<forall>d \<in> set (delivered steps).
             record_of d = toISOString (new_Date (fst d)) @ '' - Event: '' @ encoded_of d @ [CHR 0x0A])
       \<and> ((\<forall>d \<in> set (delivered steps). CHR 0x0A \<notin> set (encoded_of d)) \<longrightarrow>
             count_list (file_content (fst (snd (run steps (s, q)))) ''events.log'') (CHR 0x0A)
               = count_list (file_content s ''events.log'') (CHR 0x0A)
                 + count_list (concat q) (CHR 0x0A) + length (delivered steps))"
proof -
  from run_all_succeed [OF assms(1,2), of s q] obtain s' q' C
    where run: "run steps (s, q) = (Normal, s', q')"
      and content: "file_content s' ''events.log'' = file_content s ''events.log'' @ concat C"
      and bag: "mset C + mset q' = mset q + mset (map record_of (delivered steps))"
      and others: "\<forall>p. p \<noteq> ''events.log'' \<longrightarrow> files s' p = files s p"
    by blast
  from run assms(3) have "q' = []"
    by simp
  with bag have perm: "mset C = mset (q @ map record_of (delivered steps))"
    by simp
  have shape: "\<forall>d \<in> set (delivered steps).
      record_of d = toISOString (new_Date (fst d)) @ '' - Event: '' @ encoded_of d @ [CHR 0x0A]"
    using assms(1) record_of_decoded by blast
  have lines: "count_list (file_content s' ''events.log'') (CHR 0x0A)
               = count_list (file_content s ''events.log'') (CHR 0x0A)
                 + count_list (concat q) (CHR 0x0A) + length (delivered steps)"
    if "\<forall>d \<in> set (delivered steps). CHR 0x0A \<notin> set (encoded_of d)"
    using count_list_concat_mset [OF perm, of "CHR 0x0A"] count_newline_records [OF assms(1) that] content
    by simp
  from run content perm others shape lines show ?thesis
    by auto
qed

lemma decoded_message_ana:
  "decoded world_up message_ana = Some ana" "decoded world_later message_ana = Some ana"
  by (simp_all add: decoded_def message_ana_def world_later_def world_up_def)

lemma logEntry_ana:
  "logEntry world_up ana = ''2024-03-09T14:05:07.042Z - Event: '' @ ana_text @ [CHR 0x0A]"
  "logEntry world_later ana = ''2024-03-09T14:05:08.042Z - Event: '' @ ana_text @ [CHR 0x0A]"
proof -
  have "JSON_stringify world_up ana = Some ana_text" "JSON_stringify world_later ana = Some ana_text"
    by (simp_all add: world_later_def world_up_def)
  then show "logEntry world_up ana = ''2024-03-09T14:05:07.042Z - Event: '' @ ana_text @ [CHR 0x0A]"
    "logEntry world_later ana = ''2024-03-09T14:05:08.042Z - Event: '' @ ana_text @ [CHR 0x0A]"
    by (simp_all add: logEntry_def toISOString_world_up toISOString_world_later template_def)
qed

lemma run_overtaking:
  "run overtaking (state_logged, []) =
     (Normal,
      appendFile_done None (logEntry world_up ana)
        (appendFile_done None (logEntry world_later ana) state_logged),
      [])"
  by (simp add: overtaking_def onMessage_call_decoded record_of_def decoded_message_ana)

theorem appends_in_any_order_witness:
  "decoded world_up message_ana \<noteq> None
   \<and> decoded world_later message_ana \<noteq> None
   \<and> snd (snd (run overtaking (state_logged, []))) = []
   \<and> fst (run overtaking (state_logged, [])) = Normal
   \<and> file_content (fst (snd (run overtaking (state_logged, [])))) ''events.log''
       = ''seen before'' @ [CHR 0x0A]
         @ ''2024-03-09T14:05:08.042Z - Event: '' @ ana_text @ [CHR 0x0A]
         @ ''2024-03-09T14:05:07.042Z - Event: '' @ ana_text @ [CHR 0x0A]
   \<and> count_list (file_content (fst (snd (run overtaking (state_logged, [])))) ''events.log'')
        (CHR 0x0A) = 3"
proof -
  have all: "\<forall>d \<in> set (delivered overtaking). decoded (fst d) (snd d) \<noteq> None"
    by (simp add: overtaking_def decoded_message_ana)
  have ok: "\<forall>r \<in> set (reports overtaking). r = None"
    by (simp add: overtaking_def)
  have none_left: "snd (snd (run overtaking (state_logged, []))) = []"
    by (simp add: run_overtaking)
  have enc: "\<forall>d \<in> set (delivered overtaking). CHR 0x0A \<notin> set (encoded_of d)"
    by (simp add: overtaking_def encoded_of_def decoded_message_ana template_def ana_text_def
          world_later_def world_up_def)
  have old: "file_content state_logged ''events.log'' = ''seen before'' @ [CHR 0x0A]"
    by (simp add: file_content_def state_logged_def)
  have written: "file_content (fst (snd (run overtaking (state_logged, [])))) ''events.log''
       = ''seen before'' @ [CHR 0x0A]
         @ ''2024-03-09T14:05:08.042Z - Event: '' @ ana_text @ [CHR 0x0A]
         @ ''2024-03-09T14:05:07.042Z - Event: '' @ ana_text @ [CHR 0x0A]"
    by (simp add: run_overtaking appendFile_done_file old logEntry_ana)
  from appends_in_any_order [OF all ok none_left] enc old
  have "fst (run overtaking (state_logged, [])) = Normal"
    and "count_list (file_content (fst (snd (run overtaking (state_logged, [])))) ''events.log'')
        (CHR 0x0A) = 3"
    by (simp_all add: overtaking_def)
  with none_left written show ?thesis
    by (simp add: decoded_message_ana)
qed

end
